theory Spec2Isabelle
  imports Main
begin

section \<open>The vector concept of drake/core/Core.h\<close>

text \<open>
  The header is template code. A vector type constructor
  (\<^verbatim>\<open>template <typename> class V\<close>) is a value of \<open>vtype\<close>; the scalar type
  it is instantiated with is the type variable of the values, so a statement
  about every scalar type is a polymorphic statement. Compile-time row counts are
  integers, with \<^verbatim>\<open>Eigen::Dynamic\<close> the sentinel \<open>-1\<close>. A template
  instantiation that is ill-formed, a failing \<^verbatim>\<open>static_assert\<close> and a
  failing assertion of the dense-vector library are error values.
\<close>

datatype vtype =
    EigenVector int
  | CombinedVector vtype vtype

datatype 'a vec =
    Matrix "'a list"
  | Combined "'a vec" "'a vec"

datatype error =
    AmbiguousSpecialization
  | StaticAssertion
  | EigenAssertion
  | IllTyped

definition Dynamic :: int where
  "Dynamic = -1"

text \<open>\<^verbatim>\<open>NullVector<ScalarType> = Eigen::Matrix<ScalarType,0,1>\<close>\<close>

definition NullVector :: vtype where
  "NullVector = EigenVector 0"

text \<open>
  \<^verbatim>\<open>RowsAtCompileTime\<close>: the template argument of an Eigen column, and
  \<^verbatim>\<open>vec1_rows + vec2_rows\<close> for a \<^verbatim>\<open>CombinedVector\<close>. The two summands are
  \<^verbatim>\<open>size_t\<close> copies of the sub-vectors' counts; the sum is written here on the
  integers, which is what \<^verbatim>\<open>size_t\<close> computes unless the sum is negative (a
  dynamic operand next to a dynamic or an empty one).
\<close>

fun RowsAtCompileTime :: "vtype \<Rightarrow> int" where
  "RowsAtCompileTime (EigenVector r) = r"
| "RowsAtCompileTime (CombinedVector V1 V2) = RowsAtCompileTime V1 + RowsAtCompileTime V2"

text \<open>A value inhabits an instantiated type: a fixed-size Eigen column has exactly
  its compile-time number of coefficients, a dynamic one any number.\<close>

fun has_type :: "vtype \<Rightarrow> 'a vec \<Rightarrow> bool" where
  "has_type (EigenVector r) (Matrix xs) = (r = Dynamic \<or> int (length xs) = r)"
| "has_type (CombinedVector V1 V2) (Combined a b) = (has_type V1 a \<and> has_type V2 b)"
| "has_type (EigenVector r) (Combined a b) = False"
| "has_type (CombinedVector V1 V2) (Matrix xs) = False"

text \<open>Every Eigen leaf of the type has a compile-time size.\<close>

fun fixed_size :: "vtype \<Rightarrow> bool" where
  "fixed_size (EigenVector r) = (0 \<le> r)"
| "fixed_size (CombinedVector V1 V2) = (fixed_size V1 \<and> fixed_size V2)"

subsection \<open>The dense-vector library\<close>

text \<open>\<^verbatim>\<open>x.topRows(n)\<close> and \<^verbatim>\<open>x.bottomRows(n)\<close> assert \<open>0 \<le> n \<le> rows\<close>.\<close>

definition topRows :: "int \<Rightarrow> 'a list \<Rightarrow> error + 'a list" where
  "topRows n x =
     (if 0 \<le> n \<and> n \<le> int (length x) then Inr (take (nat n) x) else Inl EigenAssertion)"

definition bottomRows :: "int \<Rightarrow> 'a list \<Rightarrow> error + 'a list" where
  "bottomRows n x =
     (if 0 \<le> n \<and> n \<le> int (length x) then Inr (drop (length x - nat n) x)
      else Inl EigenAssertion)"

text \<open>\<^verbatim>\<open>Eigen::Matrix<S,n,1> x; x << c1, c2;\<close> the comma initialiser must fill
  exactly the rows of \<open>x\<close>; a default-constructed dynamic column has none.\<close>

definition comma_init :: "int \<Rightarrow> 'a list \<Rightarrow> error + 'a list" where
  "comma_init n cs =
     (if int (length cs) = (if n = Dynamic then 0 else n) then Inr cs else Inl EigenAssertion)"


subsection \<open>Construction from a dense expression, conversion back, sizes\<close>

text \<open>
  The concept's constructor \<^verbatim>\<open>Vector(const Eigen::MatrixBase<Derived>&)\<close>. For
  \<^verbatim>\<open>CombinedVector\<close> it is
  \<^verbatim>\<open>vec1(x.topRows(vec1_rows)), vec2(x.bottomRows(vec2_rows))\<close>.
\<close>

fun construct :: "vtype \<Rightarrow> 'a list \<Rightarrow> error + 'a vec" where
  "construct (EigenVector r) x =
     (if r = Dynamic \<or> int (length x) = r then Inr (Matrix x) else Inl EigenAssertion)"
| "construct (CombinedVector V1 V2) x =
     (case topRows (RowsAtCompileTime V1) x of
        Inl e \<Rightarrow> Inl e
      | Inr t \<Rightarrow>
         (case construct V1 t of
            Inl e \<Rightarrow> Inl e
          | Inr v1 \<Rightarrow>
             (case bottomRows (RowsAtCompileTime V2) x of
                Inl e \<Rightarrow> Inl e
              | Inr b \<Rightarrow>
                 (case construct V2 b of
                    Inl e \<Rightarrow> Inl e
                  | Inr v2 \<Rightarrow> Inr (Combined v1 v2)))))"

text \<open>\<^verbatim>\<open>operator=\<close> from a dense expression: both members are assigned from the
  same two blocks, whatever the old value was.\<close>

fun assign :: "vtype \<Rightarrow> 'a vec \<Rightarrow> 'a list \<Rightarrow> error + 'a vec" where
  "assign (EigenVector r) old x =
     (if r = Dynamic \<or> int (length x) = r then Inr (Matrix x) else Inl EigenAssertion)"
| "assign (CombinedVector V1 V2) (Combined o1 o2) x =
     (case topRows (RowsAtCompileTime V1) x of
        Inl e \<Rightarrow> Inl e
      | Inr t \<Rightarrow>
         (case assign V1 o1 t of
            Inl e \<Rightarrow> Inl e
          | Inr v1 \<Rightarrow>
             (case bottomRows (RowsAtCompileTime V2) x of
                Inl e \<Rightarrow> Inl e
              | Inr b \<Rightarrow>
                 (case assign V2 o2 b of
                    Inl e \<Rightarrow> Inl e
                  | Inr v2 \<Rightarrow> Inr (Combined v1 v2)))))"
| "assign (CombinedVector V1 V2) (Matrix xs) x = Inl IllTyped"

text \<open>The members \<^verbatim>\<open>first()\<close>, \<^verbatim>\<open>second()\<close> and \<^verbatim>\<open>size()\<close>.\<close>

fun CombinedVector_first :: "'a vec \<Rightarrow> error + 'a vec" where
  "CombinedVector_first (Combined a b) = Inr a"
| "CombinedVector_first (Matrix xs) = Inl IllTyped"

fun CombinedVector_second :: "'a vec \<Rightarrow> error + 'a vec" where
  "CombinedVector_second (Combined a b) = Inr b"
| "CombinedVector_second (Matrix xs) = Inl IllTyped"

fun member_size :: "'a vec \<Rightarrow> nat" where
  "member_size (Matrix xs) = length xs"
| "member_size (Combined a b) = member_size a + member_size b"

text \<open>\<^verbatim>\<open>toEigen\<close>: the identity on an Eigen column; for a \<^verbatim>\<open>CombinedVector\<close>
  a column of \<^verbatim>\<open>Vector1::RowsAtCompileTime + Vector2::RowsAtCompileTime\<close> rows
  filled with \<^verbatim>\<open>toEigen(vec1), toEigen(vec2)\<close>.\<close>

fun toEigen :: "vtype \<Rightarrow> 'a vec \<Rightarrow> error + 'a list" where
  "toEigen (EigenVector r) (Matrix xs) = Inr xs"
| "toEigen (CombinedVector V1 V2) (Combined a b) =
     (case toEigen V1 a of
        Inl e \<Rightarrow> Inl e
      | Inr xs \<Rightarrow>
         (case toEigen V2 b of
            Inl e \<Rightarrow> Inl e
          | Inr ys \<Rightarrow> comma_init (RowsAtCompileTime V1 + RowsAtCompileTime V2) (xs @ ys)))"
| "toEigen (EigenVector r) (Combined a b) = Inl IllTyped"
| "toEigen (CombinedVector V1 V2) (Matrix xs) = Inl IllTyped"

subsection \<open>getRandomVector and size\<close>


text \<open>\<^verbatim>\<open>SizeDispatch<VecType,Enable>::eval\<close>; the result is a \<^verbatim>\<open>size_t\<close>
  (64 bits), to which the static branch converts the row count.\<close>

definition SizeDispatch_eval :: "bool \<Rightarrow> vtype \<Rightarrow> 'a vec \<Rightarrow> nat" where
  "SizeDispatch_eval Enable VecType vec =
     (if Enable then member_size vec
      else nat (RowsAtCompileTime VecType mod 2 ^ 64))"

definition size_vec :: "vtype \<Rightarrow> 'a vec \<Rightarrow> nat" where
  "size_vec VecType vec = SizeDispatch_eval (RowsAtCompileTime VecType = -1) VecType vec"

subsection \<open>CombinedVectorBuilder and CombinedVectorUtil\<close>

text \<open>
  Both templates have a primary definition and two partial specialisations, each
  enabled by \<^verbatim>\<open>std::enable_if\<close> on one operand's row count being zero.
  Neither specialisation is more specialised than the other, so an instantiation
  that both match is ambiguous and ill-formed.
\<close>

datatype selection = Primary | Vector2_zero | Vector1_zero

definition select_specialization :: "selection list \<Rightarrow> error + selection" where
  "select_specialization ms =
     (case ms of
        [] \<Rightarrow> Inr Primary
      | [s] \<Rightarrow> Inr s
      | s # t # rest \<Rightarrow> Inl AmbiguousSpecialization)"

definition CombinedVectorBuilder_select :: "vtype \<Rightarrow> vtype \<Rightarrow> error + selection" where
  "CombinedVectorBuilder_select Vector1 Vector2 =
     select_specialization
       ((if RowsAtCompileTime Vector2 = 0 then [Vector2_zero] else []) @
        (if RowsAtCompileTime Vector1 = 0 then [Vector1_zero] else []))"

definition CombinedVectorBuilder :: "vtype \<Rightarrow> vtype \<Rightarrow> error + vtype" where
  "CombinedVectorBuilder Vector1 Vector2 =
     (case CombinedVectorBuilder_select Vector1 Vector2 of
        Inl e \<Rightarrow> Inl e
      | Inr Primary \<Rightarrow> Inr (CombinedVector Vector1 Vector2)
      | Inr Vector2_zero \<Rightarrow> Inr Vector1
      | Inr Vector1_zero \<Rightarrow> Inr Vector2)"

definition CombinedVectorUtil_select :: "vtype \<Rightarrow> vtype \<Rightarrow> error + selection" where
  "CombinedVectorUtil_select Vector1 Vector2 =
     select_specialization
       ((if RowsAtCompileTime Vector2 = 0 then [Vector2_zero] else []) @
        (if RowsAtCompileTime Vector1 = 0 then [Vector1_zero] else []))"

text \<open>In the collapsed cases the absent side is \<^verbatim>\<open>return NullVector<ScalarType>()\<close>,
  converted to the declared return type by that type's constructor from a dense
  expression.\<close>

definition first :: "vtype \<Rightarrow> vtype \<Rightarrow> 'a vec \<Rightarrow> error + 'a vec" where
  "first Vector1 Vector2 vec =
     (case CombinedVectorUtil_select Vector1 Vector2 of
        Inl e \<Rightarrow> Inl e
      | Inr Primary \<Rightarrow> CombinedVector_first vec
      | Inr Vector2_zero \<Rightarrow> Inr vec
      | Inr Vector1_zero \<Rightarrow> construct Vector1 [])"

definition second :: "vtype \<Rightarrow> vtype \<Rightarrow> 'a vec \<Rightarrow> error + 'a vec" where
  "second Vector1 Vector2 vec =
     (case CombinedVectorUtil_select Vector1 Vector2 of
        Inl e \<Rightarrow> Inl e
      | Inr Primary \<Rightarrow> CombinedVector_second vec
      | Inr Vector2_zero \<Rightarrow> construct Vector2 []
      | Inr Vector1_zero \<Rightarrow> Inr vec)"

definition combine :: "vtype \<Rightarrow> vtype \<Rightarrow> 'a vec \<Rightarrow> 'a vec \<Rightarrow> error + 'a vec" where
  "combine Vector1 Vector2 vec1 vec2 =
     (case CombinedVectorUtil_select Vector1 Vector2 of
        Inl e \<Rightarrow> Inl e
      | Inr Primary \<Rightarrow> Inr (Combined vec1 vec2)
      | Inr Vector2_zero \<Rightarrow> Inr vec1
      | Inr Vector1_zero \<Rightarrow> Inr vec2)"

text \<open>The reconstruction \<^verbatim>\<open>combine(first(c), second(c))\<close> of the round-trip
  property, the arguments evaluated before the call.\<close>

definition round_trip :: "vtype \<Rightarrow> vtype \<Rightarrow> 'a vec \<Rightarrow> error + 'a vec" where
  "round_trip Vector1 Vector2 c =
     (case first Vector1 Vector2 c of
        Inl e \<Rightarrow> Inl e
      | Inr f \<Rightarrow>
         (case second Vector1 Vector2 c of
            Inl e \<Rightarrow> Inl e
          | Inr s \<Rightarrow> combine Vector1 Vector2 f s))"

section \<open>Template selection\<close>

lemma Builder_select_cases:
  "CombinedVectorBuilder_select V1 V2 =
     (if RowsAtCompileTime V2 = 0 \<and> RowsAtCompileTime V1 = 0 then Inl AmbiguousSpecialization
      else if RowsAtCompileTime V2 = 0 then Inr Vector2_zero
      else if RowsAtCompileTime V1 = 0 then Inr Vector1_zero
      else Inr Primary)"
  by (simp add: CombinedVectorBuilder_select_def select_specialization_def)

lemma Util_select_cases:
  "CombinedVectorUtil_select V1 V2 =
     (if RowsAtCompileTime V2 = 0 \<and> RowsAtCompileTime V1 = 0 then Inl AmbiguousSpecialization
      else if RowsAtCompileTime V2 = 0 then Inr Vector2_zero
      else if RowsAtCompileTime V1 = 0 then Inr Vector1_zero
      else Inr Primary)"
  by (simp add: CombinedVectorUtil_select_def select_specialization_def)

text \<open>The type the builder produces, case by case: the three cases in which at
  most one operand has no rows are the ones its documentation describes.\<close>

lemma CombinedVectorBuilder_cases:
  "CombinedVectorBuilder V1 V2 =
     (if RowsAtCompileTime V2 = 0 \<and> RowsAtCompileTime V1 = 0 then Inl AmbiguousSpecialization
      else if RowsAtCompileTime V2 = 0 then Inr V1
      else if RowsAtCompileTime V1 = 0 then Inr V2
      else Inr (CombinedVector V1 V2))"
  by (simp add: CombinedVectorBuilder_def Builder_select_cases)

text \<open>
  C1. Whenever \<^verbatim>\<open>Vector2<double>::RowsAtCompileTime == 0\<close> the composed type is to
  be exactly \<^verbatim>\<open>Vector1\<close>. With the null vector on both sides the second operand
  has no rows, yet the builder yields no type at all: both partial specialisations
  match and the instantiation is ambiguous.
\<close>

theorem CombinedVectorBuilder_collapse_null_null:
  "RowsAtCompileTime NullVector = 0 \<and>
   CombinedVectorBuilder NullVector NullVector \<noteq> Inr NullVector \<and>
   CombinedVectorBuilder NullVector NullVector = Inl AmbiguousSpecialization"
  by (simp add: CombinedVectorBuilder_cases NullVector_def)

text \<open>
  C7. Double zero: the composed type of two zero-row operands is to be the first
  operand's type, and the composed value to have size 0. On two zero-row Eigen
  columns neither the builder nor \<^verbatim>\<open>combine\<close> is well-formed, so there is no
  composed type and no composed value.
\<close>

theorem double_zero_ambiguous:
  "CombinedVectorBuilder (EigenVector 0) (EigenVector 0) = Inl AmbiguousSpecialization \<and>
   combine (EigenVector 0) (EigenVector 0) (Matrix ([] :: int list)) (Matrix []) =
     Inl AmbiguousSpecialization"
  by (simp add: CombinedVectorBuilder_cases combine_def Util_select_cases)


section \<open>Construction, conversion and sizes of fixed-size types\<close>

lemma fixed_size_rows_nonneg: "fixed_size T \<Longrightarrow> 0 \<le> RowsAtCompileTime T"
  by (induction T) auto


lemma toEigen_fixed:
  "fixed_size T \<Longrightarrow> has_type T v \<Longrightarrow>
     \<exists>xs. toEigen T v = Inr xs \<and> int (length xs) = RowsAtCompileTime T"
proof (induction T v rule: has_type.induct)
  case (1 r xs)
  then show ?case by (auto simp: Dynamic_def)
next
  case (2 V1 V2 a b)
  then obtain xs ys where
    xs: "toEigen V1 a = Inr xs" "int (length xs) = RowsAtCompileTime V1" and
    ys: "toEigen V2 b = Inr ys" "int (length ys) = RowsAtCompileTime V2"
    by auto
  have "RowsAtCompileTime V1 + RowsAtCompileTime V2 \<noteq> Dynamic"
    using xs ys by (simp add: Dynamic_def)
  with xs ys show ?case by (simp add: comma_init_def)
qed simp_all


lemma construct_toEigen:
  "construct T x = Inr v \<Longrightarrow>
   int (length x) = RowsAtCompileTime T \<or> T = EigenVector Dynamic \<Longrightarrow>
   toEigen T v = Inr x"
proof (induction T arbitrary: x v)
  case (EigenVector r)
  then show ?case by (auto split: if_splits)
next
  case (CombinedVector V1 V2)
  from CombinedVector.prems(2)
  have len: "int (length x) = RowsAtCompileTime V1 + RowsAtCompileTime V2" by simp
  from CombinedVector.prems(1) obtain v1 v2 where
    r1: "0 \<le> RowsAtCompileTime V1" "RowsAtCompileTime V1 \<le> int (length x)" and
    c1: "construct V1 (take (nat (RowsAtCompileTime V1)) x) = Inr v1" and
    r2: "0 \<le> RowsAtCompileTime V2" "RowsAtCompileTime V2 \<le> int (length x)" and
    c2: "construct V2 (drop (length x - nat (RowsAtCompileTime V2)) x) = Inr v2" and
    v: "v = Combined v1 v2"
    by (auto simp: topRows_def bottomRows_def split: sum.splits if_splits)
  have d: "length x - nat (RowsAtCompileTime V2) = nat (RowsAtCompileTime V1)"
    using len r1 r2 by linarith
  have t1: "toEigen V1 v1 = Inr (take (nat (RowsAtCompileTime V1)) x)"
    using CombinedVector.IH(1)[OF c1] r1 by simp
  have t2: "toEigen V2 v2 = Inr (drop (nat (RowsAtCompileTime V1)) x)"
    using CombinedVector.IH(2)[OF c2] r2 len d by simp
  show ?case using t1 t2 v len r1 r2 by (simp add: comma_init_def Dynamic_def)
qed

lemma construct_fixed:
  "fixed_size T \<Longrightarrow> int (length x) = RowsAtCompileTime T \<Longrightarrow> \<exists>v. construct T x = Inr v"
proof (induction T arbitrary: x)
  case (EigenVector r)
  then show ?case by simp
next
  case (CombinedVector V1 V2)
  have n1: "0 \<le> RowsAtCompileTime V1" and n2: "0 \<le> RowsAtCompileTime V2"
    using CombinedVector.prems(1) by (simp_all add: fixed_size_rows_nonneg)
  have len: "int (length x) = RowsAtCompileTime V1 + RowsAtCompileTime V2"
    using CombinedVector.prems(2) by simp
  have "int (length (take (nat (RowsAtCompileTime V1)) x)) = RowsAtCompileTime V1"
    using n1 n2 len by simp
  then obtain v1 where c1: "construct V1 (take (nat (RowsAtCompileTime V1)) x) = Inr v1"
    using CombinedVector.IH(1) CombinedVector.prems(1) by fastforce
  have "int (length (drop (length x - nat (RowsAtCompileTime V2)) x)) = RowsAtCompileTime V2"
    using n1 n2 len by simp
  then obtain v2 where c2: "construct V2 (drop (length x - nat (RowsAtCompileTime V2)) x) = Inr v2"
    using CombinedVector.IH(2) CombinedVector.prems(1) by fastforce
  show ?case using c1 c2 n1 n2 len by (simp add: topRows_def bottomRows_def)
qed

lemma assign_eq_construct: "has_type T old \<Longrightarrow> assign T old x = construct T x"
proof (induction T old arbitrary: x rule: has_type.induct)
  case (2 V1 V2 a b)
  then show ?case by (simp split: sum.splits)
qed simp_all

lemma construct_empty: "fixed_size V \<Longrightarrow> RowsAtCompileTime V = 0 \<Longrightarrow> \<exists>z. construct V [] = Inr z"
  using construct_fixed [of V "[]"] by simp


section \<open>The combined vector\<close>



text \<open>
  C3. For fixed-size vector type constructors \<open>A\<close> and \<open>B\<close> with positive row
  counts and values \<open>a\<close>, \<open>b\<close> of them: the builder yields a type,
  \<^verbatim>\<open>combine(a,b)\<close> a value of it, and \<^verbatim>\<open>toEigen\<close> of that value is
  \<^verbatim>\<open>toEigen(a)\<close> followed by \<^verbatim>\<open>toEigen(b)\<close>, of length
  \<open>rows A + rows B\<close>, which is also the compile-time row count of the composed type.
\<close>

theorem toEigen_combine:
  assumes "fixed_size A" "fixed_size B"
      and "0 < RowsAtCompileTime A" "0 < RowsAtCompileTime B"
      and "has_type A a" "has_type B b"
  shows "\<exists>xa xb T c.
           toEigen A a = Inr xa \<and> toEigen B b = Inr xb \<and>
           CombinedVectorBuilder A B = Inr T \<and> combine A B a b = Inr c \<and> has_type T c \<and>
           toEigen T c = Inr (xa @ xb) \<and>
           int (length (xa @ xb)) = RowsAtCompileTime A + RowsAtCompileTime B \<and>
           RowsAtCompileTime T = RowsAtCompileTime A + RowsAtCompileTime B"
proof -
  obtain xa where xa: "toEigen A a = Inr xa" "int (length xa) = RowsAtCompileTime A"
    using toEigen_fixed [OF assms(1) assms(5)] by blast
  obtain xb where xb: "toEigen B b = Inr xb" "int (length xb) = RowsAtCompileTime B"
    using toEigen_fixed [OF assms(2) assms(6)] by blast
  have T: "CombinedVectorBuilder A B = Inr (CombinedVector A B)"
    using assms(3,4) by (simp add: CombinedVectorBuilder_cases)
  have c: "combine A B a b = Inr (Combined a b)"
    using assms(3,4) by (simp add: combine_def Util_select_cases)
  have ty: "has_type (CombinedVector A B) (Combined a b)"
    using assms(5,6) by simp
  have d: "toEigen (CombinedVector A B) (Combined a b) = Inr (xa @ xb)"
    using xa xb assms(3,4) by (simp add: comma_init_def Dynamic_def)
  have l: "int (length (xa @ xb)) = RowsAtCompileTime A + RowsAtCompileTime B"
    using xa xb by simp
  show ?thesis using xa(1) xb(1) T c ty d l by auto
qed

theorem toEigen_combine_witness:
  "fixed_size (EigenVector 3) \<and> fixed_size (EigenVector 2) \<and>
   has_type (EigenVector 3) (Matrix [1, 2, 3 :: int]) \<and>
   has_type (EigenVector 2) (Matrix [4, 5 :: int]) \<and>
   combine (EigenVector 3) (EigenVector 2) (Matrix [1, 2, 3 :: int]) (Matrix [4, 5]) =
     Inr (Combined (Matrix [1, 2, 3]) (Matrix [4, 5])) \<and>
   toEigen (CombinedVector (EigenVector 3) (EigenVector 2))
     (Combined (Matrix [1, 2, 3 :: int]) (Matrix [4, 5])) = Inr [1, 2, 3, 4, 5]"
  using toEigen_combine
    [of "EigenVector 3" "EigenVector 2" "Matrix [1, 2, 3 :: int]" "Matrix [4, 5 :: int]"]
  by (simp add: CombinedVectorBuilder_cases combine_def Util_select_cases comma_init_def
      Dynamic_def)

text \<open>
  C6. Split construction. Let \<open>x\<close> be a dense vector of length
  \<open>rows V1 + rows V2\<close>. Constructing a \<^verbatim>\<open>CombinedVector\<close> from \<open>x\<close>
  succeeds when both sub-vector types are fixed-size; and whenever construction from
  \<open>x\<close>, or assignment of \<open>x\<close> to an existing value, yields \<open>c\<close>, the dense
  form of \<^verbatim>\<open>c.first()\<close> is the leading \<open>rows V1\<close> rows of \<open>x\<close>, that of
  \<^verbatim>\<open>c.second()\<close> the remaining \<open>rows V2\<close> rows, the dense form of \<open>c\<close> is
  \<open>x\<close> again, and the \<^verbatim>\<open>first\<close>/\<^verbatim>\<open>second\<close> of
  \<^verbatim>\<open>CombinedVectorUtil\<close> return the same two parts.
\<close>

theorem split_construction:
  assumes "int (length x) = RowsAtCompileTime V1 + RowsAtCompileTime V2"
  shows "(fixed_size V1 \<and> fixed_size V2 \<longrightarrow>
            (\<exists>c. construct (CombinedVector V1 V2) x = Inr c)) \<and>
         (\<forall>c. construct (CombinedVector V1 V2) x = Inr c \<or>
               (\<exists>old. has_type (CombinedVector V1 V2) old \<and>
                      assign (CombinedVector V1 V2) old x = Inr c) \<longrightarrow>
            (\<exists>a b. CombinedVector_first c = Inr a \<and> CombinedVector_second c = Inr b \<and>
               toEigen V1 a = Inr (take (nat (RowsAtCompileTime V1)) x) \<and>
               toEigen V2 b = Inr (drop (nat (RowsAtCompileTime V1)) x) \<and>
               int (length (take (nat (RowsAtCompileTime V1)) x)) = RowsAtCompileTime V1 \<and>
               int (length (drop (nat (RowsAtCompileTime V1)) x)) = RowsAtCompileTime V2 \<and>
               toEigen (CombinedVector V1 V2) c = Inr x \<and>
               (RowsAtCompileTime V1 \<noteq> 0 \<and> RowsAtCompileTime V2 \<noteq> 0 \<longrightarrow>
                  first V1 V2 c = Inr a \<and> second V1 V2 c = Inr b)))"
proof (intro conjI allI impI)
  assume "fixed_size V1 \<and> fixed_size V2"
  then show "\<exists>c. construct (CombinedVector V1 V2) x = Inr c"
    using construct_fixed [of "CombinedVector V1 V2" x] assms by simp
next
  fix c
  assume "construct (CombinedVector V1 V2) x = Inr c \<or>
          (\<exists>old. has_type (CombinedVector V1 V2) old \<and>
                 assign (CombinedVector V1 V2) old x = Inr c)"
  then have con: "construct (CombinedVector V1 V2) x = Inr c"
    using assign_eq_construct [of "CombinedVector V1 V2" _ x] by auto
  then obtain a b where
    r1: "0 \<le> RowsAtCompileTime V1" "RowsAtCompileTime V1 \<le> int (length x)" and
    c1: "construct V1 (take (nat (RowsAtCompileTime V1)) x) = Inr a" and
    r2: "0 \<le> RowsAtCompileTime V2" "RowsAtCompileTime V2 \<le> int (length x)" and
    c2: "construct V2 (drop (length x - nat (RowsAtCompileTime V2)) x) = Inr b" and
    c: "c = Combined a b"
    by (auto simp: topRows_def bottomRows_def split: sum.splits if_splits)
  have d: "length x - nat (RowsAtCompileTime V2) = nat (RowsAtCompileTime V1)"
    using assms r1 r2 by linarith
  have l1: "int (length (take (nat (RowsAtCompileTime V1)) x)) = RowsAtCompileTime V1"
    using r1 by simp
  have l2: "int (length (drop (nat (RowsAtCompileTime V1)) x)) = RowsAtCompileTime V2"
    using assms r1 r2 by simp
  have t1: "toEigen V1 a = Inr (take (nat (RowsAtCompileTime V1)) x)"
    using construct_toEigen [OF c1] l1 by simp
  have t2: "toEigen V2 b = Inr (drop (nat (RowsAtCompileTime V1)) x)"
    using construct_toEigen [OF c2] l2 d by simp
  have t: "toEigen (CombinedVector V1 V2) c = Inr x"
    using construct_toEigen [OF con] assms by simp
  have u: "RowsAtCompileTime V1 \<noteq> 0 \<and> RowsAtCompileTime V2 \<noteq> 0 \<longrightarrow>
             first V1 V2 c = Inr a \<and> second V1 V2 c = Inr b"
    using c by (simp add: first_def second_def Util_select_cases)
  show "\<exists>a b. CombinedVector_first c = Inr a \<and> CombinedVector_second c = Inr b \<and>
               toEigen V1 a = Inr (take (nat (RowsAtCompileTime V1)) x) \<and>
               toEigen V2 b = Inr (drop (nat (RowsAtCompileTime V1)) x) \<and>
               int (length (take (nat (RowsAtCompileTime V1)) x)) = RowsAtCompileTime V1 \<and>
               int (length (drop (nat (RowsAtCompileTime V1)) x)) = RowsAtCompileTime V2 \<and>
               toEigen (CombinedVector V1 V2) c = Inr x \<and>
               (RowsAtCompileTime V1 \<noteq> 0 \<and> RowsAtCompileTime V2 \<noteq> 0 \<longrightarrow>
                  first V1 V2 c = Inr a \<and> second V1 V2 c = Inr b)"
    using c t1 t2 l1 l2 t u by simp
qed

theorem split_construction_witness:
  "int (length [1, 2, 3, 4, 5 :: int]) =
     RowsAtCompileTime (EigenVector 3) + RowsAtCompileTime (EigenVector 2) \<and>
   fixed_size (EigenVector 3) \<and> fixed_size (EigenVector 2) \<and>
   construct (CombinedVector (EigenVector 3) (EigenVector 2)) [1, 2, 3, 4, 5 :: int] =
     Inr (Combined (Matrix [1, 2, 3]) (Matrix [4, 5])) \<and>
   has_type (CombinedVector (EigenVector 3) (EigenVector 2))
     (Combined (Matrix [0, 0, 0 :: int]) (Matrix [0, 0])) \<and>
   assign (CombinedVector (EigenVector 3) (EigenVector 2))
     (Combined (Matrix [0, 0, 0]) (Matrix [0, 0])) [1, 2, 3, 4, 5 :: int] =
     Inr (Combined (Matrix [1, 2, 3]) (Matrix [4, 5])) \<and>
   toEigen (EigenVector 3) (Matrix [1, 2, 3 :: int]) = Inr (take 3 [1, 2, 3, 4, 5]) \<and>
   toEigen (EigenVector 2) (Matrix [4, 5 :: int]) = Inr (drop 3 [1, 2, 3, 4, 5])"
  using split_construction [of "[1, 2, 3, 4, 5 :: int]" "EigenVector 3" "EigenVector 2"]
  by (simp add: topRows_def bottomRows_def)

section \<open>Composition with the null vector, and the round trip\<close>

text \<open>
  C5. Null-vector identity laws. For \<open>A\<close> with a positive row count, a value
  \<open>a\<close> of it and a null vector \<open>n\<close>: the type composed of \<open>A\<close> and the null
  vector type, in either order, is \<open>A\<close>; \<^verbatim>\<open>combine\<close> returns \<open>a\<close> unchanged;
  the accessor on the side of \<open>A\<close> returns the whole value and the other one a
  null vector, of size 0.
\<close>

theorem NullVector_identity:
  fixes a :: "'a vec" and n :: "'a vec"
  assumes "0 < RowsAtCompileTime A" and "has_type A a" and "has_type NullVector n"
  shows "CombinedVectorBuilder A NullVector = Inr A \<and>
         combine A NullVector a n = Inr a \<and>
         first A NullVector a = Inr a \<and>
         second A NullVector a = Inr (Matrix []) \<and>
         CombinedVectorBuilder NullVector A = Inr A \<and>
         combine NullVector A n a = Inr a \<and>
         second NullVector A a = Inr a \<and>
         first NullVector A a = Inr (Matrix []) \<and>
         has_type NullVector (Matrix [] :: 'a vec) \<and>
         member_size (Matrix [] :: 'a vec) = 0 \<and>
         size_vec NullVector (Matrix [] :: 'a vec) = 0"
  using assms(1)
  by (simp add: CombinedVectorBuilder_cases combine_def first_def second_def Util_select_cases
      NullVector_def size_vec_def SizeDispatch_eval_def)

theorem NullVector_identity_witness:
  "0 < RowsAtCompileTime (EigenVector 2) \<and>
   has_type (EigenVector 2) (Matrix [7, 8 :: int]) \<and>
   has_type NullVector (Matrix ([] :: int list)) \<and>
   CombinedVectorBuilder NullVector (EigenVector 2) = Inr (EigenVector 2) \<and>
   combine NullVector (EigenVector 2) (Matrix []) (Matrix [7, 8 :: int]) = Inr (Matrix [7, 8]) \<and>
   first NullVector (EigenVector 2) (Matrix [7, 8 :: int]) = Inr (Matrix [])"
  using NullVector_identity [of "EigenVector 2" "Matrix [7, 8 :: int]" "Matrix []"]
  by (simp add: NullVector_def)

text \<open>
  C4, as amended. Round trip: for every pair of vector type constructors for
  which the builder yields a type, a zero-row operand (if there is one) being made
  of fixed-size Eigen columns only, and for every value \<open>c\<close> of the composed
  type, \<^verbatim>\<open>combine(first(c), second(c))\<close> returns \<open>c\<close> itself, so a value with the
  same dense form.
\<close>

theorem round_trip_fixed:
  assumes T: "CombinedVectorBuilder V1 V2 = Inr T"
      and c: "has_type T c"
      and z1: "RowsAtCompileTime V1 = 0 \<longrightarrow> fixed_size V1"
      and z2: "RowsAtCompileTime V2 = 0 \<longrightarrow> fixed_size V2"
  shows "\<exists>c'. round_trip V1 V2 c = Inr c' \<and> toEigen T c' = toEigen T c \<and> c' = c"
proof -
  consider (both) "RowsAtCompileTime V2 = 0" "RowsAtCompileTime V1 = 0"
    | (v2) "RowsAtCompileTime V2 = 0" "RowsAtCompileTime V1 \<noteq> 0"
    | (v1) "RowsAtCompileTime V2 \<noteq> 0" "RowsAtCompileTime V1 = 0"
    | (pair) "RowsAtCompileTime V2 \<noteq> 0" "RowsAtCompileTime V1 \<noteq> 0"
    by blast
  then show ?thesis
  proof cases
    case both
    with T show ?thesis by (simp add: CombinedVectorBuilder_cases)
  next
    case v2
    obtain z where "construct V2 ([] :: 'a list) = Inr z"
      using construct_empty [of V2] z2 v2 by blast
    with v2 show ?thesis
      by (simp add: round_trip_def first_def second_def combine_def Util_select_cases)
  next
    case v1
    obtain z where "construct V1 ([] :: 'a list) = Inr z"
      using construct_empty [of V1] z1 v1 by blast
    with v1 show ?thesis
      by (simp add: round_trip_def first_def second_def combine_def Util_select_cases)
  next
    case pair
    with T have "T = CombinedVector V1 V2" by (simp add: CombinedVectorBuilder_cases)
    with c obtain a b where "c = Combined a b" by (cases c) auto
    with pair show ?thesis
      by (simp add: round_trip_def first_def second_def combine_def Util_select_cases)
  qed
qed

theorem round_trip_fixed_witness:
  "CombinedVectorBuilder (EigenVector 3) (EigenVector 2) =
     Inr (CombinedVector (EigenVector 3) (EigenVector 2)) \<and>
   has_type (CombinedVector (EigenVector 3) (EigenVector 2))
     (Combined (Matrix [1, 2, 3 :: int]) (Matrix [4, 5])) \<and>
   round_trip (EigenVector 3) (EigenVector 2) (Combined (Matrix [1, 2, 3 :: int]) (Matrix [4, 5])) =
     Inr (Combined (Matrix [1, 2, 3]) (Matrix [4, 5])) \<and>
   CombinedVectorBuilder (EigenVector 2) (EigenVector 0) = Inr (EigenVector 2) \<and>
   has_type (EigenVector 2) (Matrix [7, 8 :: int]) \<and>
   fixed_size (EigenVector 0) \<and>
   round_trip (EigenVector 2) (EigenVector 0) (Matrix [7, 8 :: int]) = Inr (Matrix [7, 8])"
  using round_trip_fixed [of "EigenVector 3" "EigenVector 2"
      "CombinedVector (EigenVector 3) (EigenVector 2)"
      "Combined (Matrix [1, 2, 3 :: int]) (Matrix [4, 5])"]
    round_trip_fixed [of "EigenVector 2" "EigenVector 0" "EigenVector 2" "Matrix [7, 8 :: int]"]
  by (simp add: CombinedVectorBuilder_cases)

text \<open>
  Without the restriction the round trip fails. A \<^verbatim>\<open>CombinedVector\<close> of a dynamic
  column and a one-row column has compile-time row count \<open>-1 + 1 = 0\<close>, so the
  builder collapses the pair of a three-row column and that type to the three-row
  column. \<^verbatim>\<open>second\<close> then converts a null vector to the second type, whose
  constructor asks the empty vector for its top \<^verbatim>\<open>vec1_rows\<close> rows.
\<close>

theorem round_trip_counterexample:
  "CombinedVectorBuilder (EigenVector 3) (CombinedVector (EigenVector (-1)) (EigenVector 1)) =
     Inr (EigenVector 3) \<and>
   has_type (EigenVector 3) (Matrix [1, 2, 3 :: int]) \<and>
   round_trip (EigenVector 3) (CombinedVector (EigenVector (-1)) (EigenVector 1))
     (Matrix [1, 2, 3 :: int]) = Inl EigenAssertion"
  by (simp add: CombinedVectorBuilder_cases round_trip_def first_def second_def
      Util_select_cases topRows_def)

section \<open>The size query and random vectors\<close>






end
